theory Spec2Isabelle
  imports Complex_Main "HOL-Library.Multiset"
begin

section \<open>The plugin-based FizzBuzz pipeline of \<^verbatim>\<open>fizzbuzz.ts\<close>\<close>

text \<open>
  The embedding follows \<^verbatim>\<open>src/fizzbuzz.ts\<close> function by function.

  \<^item> Numbers are integers (\<^typ>\<open>int\<close>), while the source computes with IEEE doubles. The
    range bounds, the step and the priorities are taken to be integers. The sort uses only
    the sign of the difference of two priorities, which is exact, so the priorities need no
    bound. The arithmetic of lines 168--170 and \<^verbatim>\<open>num.toString()\<close> are exact on the safe
    integers, those of absolute value at most \<open>2\<^sup>5\<^sup>3 - 1\<close>: \<open>exactRange\<close> below names the
    arguments of \<^verbatim>\<open>fizzBuzz\<close> for which every value computed there is one, and for these the
    definitions follow the source. For other arguments the source rounds (it computes
    \<open>2\<^sup>5\<^sup>3 + 1\<close> as \<open>2\<^sup>5\<^sup>3\<close>) and prints in another format (\<open>10\<^sup>2\<^sup>1\<close> as \<^verbatim>\<open>1e+21\<close>); the definitions
    do not follow it there, and the theorem that says which numbers a run evaluates has
    \<open>exactRange\<close> as a hypothesis.
  \<^item> Rule objects are compared by reference in the source (\<^verbatim>\<open>includes\<close>, \<^verbatim>\<open>!==\<close>), so a
    rule is a reference \<^verbatim>\<open>ruleRef\<close> into an arena that maps references to rule objects.
    The pipeline never assigns to a field of a rule, so the arena is a parameter.
  \<^item> \<^verbatim>\<open>Array.prototype.sort\<close> sorts the array it is called on. The \<^verbatim>\<open>rules\<close> arrays of rule
    sets and groups are therefore references \<^verbatim>\<open>arrRef\<close> into a store of arrays, which is
    part of the state that every evaluation takes and returns.
  \<^item> The \<^verbatim>\<open>events\<close> callbacks return nothing and exist for their effect; they act on an
    outside world \<open>'w\<close> that the pipeline threads through and never reads.
  \<^item> Predicates, selectors, transformers and formatters are functions of their declared
    arguments. The optional \<^verbatim>\<open>context?: any\<close> argument is an \<^verbatim>\<open>any option\<close>, \<open>None\<close> where
    the source passes nothing.
  \<^item> A thrown exception is a value \<open>Inl e\<close>; the state reached when it is thrown is kept.
  \<^item> \<^verbatim>\<open>evaluateRuleCombinator\<close> (lines 63--74) is called from nowhere, and the lines after
    the function \<^verbatim>\<open>fizzBuzz\<close> (178--200) are one fixed call of it; neither is modelled.
\<close>

subsection \<open>Data model (lines 1--42)\<close>

datatype error = TypeError | RangeError

datatype any = Number int | Text string | Reference nat

type_synonym ruleRef = nat
type_synonym arrRef = nat

type_synonym RuleEvaluator = "int \<Rightarrow> any option \<Rightarrow> bool"
type_synonym ResultTransformer = "string \<Rightarrow> int \<Rightarrow> any option \<Rightarrow> string"
type_synonym ResultFormatter = "string list \<Rightarrow> string"

text \<open>
  \<^verbatim>\<open>FizzBuzzRule\<close>. The field \<^verbatim>\<open>condition\<close> is not in the declared type, but \<^verbatim>\<open>evaluateRule\<close>
  reads it, so the object model has it. \<^verbatim>\<open>output\<close> and \<^verbatim>\<open>filter\<close> carry a suffix because
  the plain names are taken in Isabelle.
\<close>

record 'w FizzBuzzRule =
  evaluator :: "RuleEvaluator option"
  condition :: "RuleEvaluator option"
  output_str :: string
  events :: "(int \<Rightarrow> 'w \<Rightarrow> 'w) list option"
  filter_fn :: "RuleEvaluator option"
  priority :: "int option"
  resultTransformer :: "ResultTransformer option"

type_synonym 'w RuleDecorator = "'w FizzBuzzRule \<Rightarrow> any option \<Rightarrow> 'w FizzBuzzRule"

datatype SelectBehavior = All | First | Last

record 'w TaggedRuleGroup =
  tag :: string
  rules :: arrRef
  selectBehavior :: SelectBehavior
  decorators :: "'w RuleDecorator list option"
  resultTransformer :: "ResultTransformer option"

type_synonym 'w RuleGroupSelector = "int \<Rightarrow> any option \<Rightarrow> 'w TaggedRuleGroup list option"
type_synonym 'w RuleGroupModifier =
  "'w TaggedRuleGroup list \<Rightarrow> any option \<Rightarrow> 'w TaggedRuleGroup list"

record RuleSet =
  condition :: RuleEvaluator
  rules :: arrRef

type_synonym RuleSelector = "int \<Rightarrow> any option \<Rightarrow> RuleSet list option"

record 'w FizzBuzzPlugin =
  ruleGroupSelectors :: "'w RuleGroupSelector list option"
  ruleSelectors :: "RuleSelector list option"
  ruleGroupModifiers :: "'w RuleGroupModifier list option"
  resultFormatters :: "ResultFormatter list option"

text \<open>The mutable part of a run: the store of rule arrays and the outside world.\<close>

record 'w state =
  arrays :: "arrRef \<Rightarrow> ruleRef list"
  world :: 'w

subsection \<open>Helper functions (lines 44--84)\<close>

text \<open>
  \<^verbatim>\<open>applyDecorators(rule, decorators, context)\<close> calls \<^verbatim>\<open>decorators.reduce\<close>. Its second
  argument is declared an array, but line 145 passes it as the callback of a \<^verbatim>\<open>reduce\<close>
  over an array of decorators, which hands it one decorator, a function, in that position
  (and the index as \<^verbatim>\<open>context\<close>). A function has no \<^verbatim>\<open>reduce\<close> property, so the call
  \<^verbatim>\<open>decorators.reduce(...)\<close> throws a \<^verbatim>\<open>TypeError\<close>. The argument is therefore either of the
  two shapes.
\<close>

datatype 'w decoratorsArg = Arr "'w RuleDecorator list" | Fn "'w RuleDecorator"

fun applyDecorators ::
  "'w FizzBuzzRule \<Rightarrow> 'w decoratorsArg \<Rightarrow> any option \<Rightarrow> error + 'w FizzBuzzRule" where
  "applyDecorators rule (Arr decoratorList) context =
     Inr (foldl (\<lambda>modifiedRule decorator. decorator modifiedRule context) rule decoratorList)"
| "applyDecorators rule (Fn decorator) context = Inl TypeError"

definition applyRuleEvents :: "'w FizzBuzzRule \<Rightarrow> int \<Rightarrow> 'w \<Rightarrow> 'w" where
  "applyRuleEvents rule num w =
     (case events rule of
        Some evs \<Rightarrow> foldl (\<lambda>w' event. event num w') w evs
      | None \<Rightarrow> w)"

definition evaluateRule :: "'w FizzBuzzRule \<Rightarrow> int \<Rightarrow> any option \<Rightarrow> bool" where
  "evaluateRule rule num context =
     (case evaluator rule of
        Some ev \<Rightarrow> ev num context
      | None \<Rightarrow>
          (case FizzBuzzRule.condition rule of
             Some cond \<Rightarrow> cond num context
           | None \<Rightarrow> False))"

text \<open>\<^verbatim>\<open>group.rules.includes(rule)\<close>: the rule reference occurs in the group's array.\<close>

definition includesRule :: "(arrRef \<Rightarrow> ruleRef list) \<Rightarrow> 'w TaggedRuleGroup \<Rightarrow> ruleRef \<Rightarrow> bool" where
  "includesRule arrs grp rule = (rule \<in> set (arrs (TaggedRuleGroup.rules grp)))"

definition getRuleTag ::
  "(arrRef \<Rightarrow> ruleRef list) \<Rightarrow> ruleRef \<Rightarrow> 'w TaggedRuleGroup list \<Rightarrow> string" where
  "getRuleTag arrs rule matchingGroups =
     (case find (\<lambda>grp. includesRule arrs grp rule) matchingGroups of
        Some grp \<Rightarrow> tag grp
      | None \<Rightarrow> ''Default'')"

text \<open>\<^verbatim>\<open>group.resultTransformer || []\<close> under \<^verbatim>\<open>flatMap\<close>: one element or none.\<close>

definition transformersOf :: "'w TaggedRuleGroup \<Rightarrow> ResultTransformer list" where
  "transformersOf grp =
     (case TaggedRuleGroup.resultTransformer grp of Some t \<Rightarrow> [t] | None \<Rightarrow> [])"

definition applyResultTransformer :: "string \<Rightarrow> int \<Rightarrow> 'w TaggedRuleGroup list \<Rightarrow> string" where
  "applyResultTransformer result num matchingGroups =
     (let ruleTransformers = concat (map transformersOf matchingGroups)
      in foldl (\<lambda>modifiedResult transformer. transformer modifiedResult num None)
           result ruleTransformers)"

subsection \<open>Extracting the plugin functions (lines 94--113)\<close>

text \<open>
  One pass of the loop body: each of the four local arrays receives the elements of the
  plugin's field when the field is present (\<^verbatim>\<open>push(...field)\<close>).
\<close>

definition pushAll :: "'a list \<Rightarrow> 'a list option \<Rightarrow> 'a list" where
  "pushAll acc field = (case field of Some xs \<Rightarrow> acc @ xs | None \<Rightarrow> acc)"

definition extractPlugin ::
  "'w RuleGroupSelector list \<times> RuleSelector list \<times> 'w RuleGroupModifier list \<times> ResultFormatter list
   \<Rightarrow> 'w FizzBuzzPlugin
   \<Rightarrow> 'w RuleGroupSelector list \<times> RuleSelector list \<times> 'w RuleGroupModifier list \<times> ResultFormatter list" where
  "extractPlugin acc plugin =
     (case acc of (groupSelectors, setSelectors, groupModifiers, formatters) \<Rightarrow>
        (pushAll groupSelectors (ruleGroupSelectors plugin),
         pushAll setSelectors (ruleSelectors plugin),
         pushAll groupModifiers (ruleGroupModifiers plugin),
         pushAll formatters (resultFormatters plugin)))"

definition extractPlugins ::
  "'w FizzBuzzPlugin list
   \<Rightarrow> 'w RuleGroupSelector list \<times> RuleSelector list \<times> 'w RuleGroupModifier list \<times> ResultFormatter list" where
  "extractPlugins plugins = foldl extractPlugin ([], [], [], []) plugins"

subsection \<open>Sorting and removing repeats (lines 133--135)\<close>

text \<open>\<^verbatim>\<open>a.priority || 0\<close>: an absent priority counts as \<open>0\<close>.\<close>

definition priorityOr0 :: "'w FizzBuzzRule \<Rightarrow> int" where
  "priorityOr0 rule = (case priority rule of Some p \<Rightarrow> p | None \<Rightarrow> 0)"

definition comparePriority :: "(ruleRef \<Rightarrow> 'w FizzBuzzRule) \<Rightarrow> ruleRef \<Rightarrow> ruleRef \<Rightarrow> int" where
  "comparePriority arena a b = priorityOr0 (arena a) - priorityOr0 (arena b)"

text \<open>
  \<^verbatim>\<open>Array.prototype.sort(compare)\<close> orders the array by the comparator and is stable:
  elements that compare equal keep their relative order. The model is the stable insertion
  sort. With the priority comparator its result is ordered by priority, keeps the relative
  order of rules of equal priority and has the elements of its argument (\<open>sortArray_sorted\<close>,
  \<open>sortArray_stable\<close> and \<open>sortArray_mset\<close> below), and these three properties leave no
  other result.
\<close>

fun insertSorted :: "('a \<Rightarrow> 'a \<Rightarrow> int) \<Rightarrow> 'a \<Rightarrow> 'a list \<Rightarrow> 'a list" where
  "insertSorted compare x [] = [x]"
| "insertSorted compare x (y # ys) =
     (if compare x y \<le> 0 then x # y # ys else y # insertSorted compare x ys)"

definition sortArray :: "('a \<Rightarrow> 'a \<Rightarrow> int) \<Rightarrow> 'a list \<Rightarrow> 'a list" where
  "sortArray compare xs = foldr (insertSorted compare) xs []"

text \<open>\<^verbatim>\<open>.filter((rule, index, self) => !index || rule !== self[index - 1])\<close>\<close>

definition removeDuplicates :: "ruleRef list \<Rightarrow> ruleRef list" where
  "removeDuplicates self =
     map snd (filter (\<lambda>(index, rule). index = 0 \<or> rule \<noteq> self ! (index - 1))
                (zip [0..<length self] self))"

subsection \<open>Evaluating one number: \<^verbatim>\<open>applyRules\<close> (lines 115--166)\<close>

text \<open>Lines 119--122 and 126--129: \<^verbatim>\<open>selector(i) || []\<close>, pushed in selector order.\<close>

definition collectGroups :: "'w RuleGroupSelector list \<Rightarrow> int \<Rightarrow> 'w TaggedRuleGroup list" where
  "collectGroups groupSelectors i =
     foldl (\<lambda>matchingGroups ruleGroupSelector.
              matchingGroups @ (case ruleGroupSelector i None of Some gs \<Rightarrow> gs | None \<Rightarrow> []))
       [] groupSelectors"

definition collectRuleSets :: "RuleSelector list \<Rightarrow> int \<Rightarrow> RuleSet list" where
  "collectRuleSets setSelectors i =
     foldl (\<lambda>ruleSets ruleSelector.
              ruleSets @ (case ruleSelector i None of Some sets \<Rightarrow> sets | None \<Rightarrow> []))
       [] setSelectors"

text \<open>\<^verbatim>\<open>group.decorators || []\<close> under \<^verbatim>\<open>flatMap\<close>.\<close>

definition decoratorsOf :: "'w TaggedRuleGroup \<Rightarrow> 'w RuleDecorator list" where
  "decoratorsOf grp = (case decorators grp of Some ds \<Rightarrow> ds | None \<Rightarrow> [])"

text \<open>
  Line 145: \<^verbatim>\<open>decoratorArray.reduce(applyDecorators, rule)\<close>. The callback receives the
  accumulator, the current element and its index.
\<close>

fun reduceApplyDecorators ::
  "'w RuleDecorator list \<Rightarrow> nat \<Rightarrow> 'w FizzBuzzRule \<Rightarrow> error + 'w FizzBuzzRule" where
  "reduceApplyDecorators [] index acc = Inr acc"
| "reduceApplyDecorators (decorator # rest) index acc =
     (case applyDecorators acc (Fn decorator) (Some (Number (int index))) of
        Inl e \<Rightarrow> Inl e
      | Inr acc' \<Rightarrow> reduceApplyDecorators rest (Suc index) acc')"

text \<open>Lines 143--150: what happens to the rule that matched.\<close>

definition applyMatchedRule ::
  "(ruleRef \<Rightarrow> 'w FizzBuzzRule) \<Rightarrow> 'w TaggedRuleGroup list \<Rightarrow> ruleRef \<Rightarrow> int \<Rightarrow> 'w state
   \<Rightarrow> (error + string) \<times> 'w state" where
  "applyMatchedRule arena matchingGroups rule i \<sigma> =
     (let \<sigma>' = \<sigma>\<lparr>world := applyRuleEvents (arena rule) i (world \<sigma>)\<rparr>;
          ruleGroupsWithRule = filter (\<lambda>grp. includesRule (arrays \<sigma>') grp rule) matchingGroups
      in case reduceApplyDecorators (concat (map decoratorsOf ruleGroupsWithRule)) 0 (arena rule) of
           Inl e \<Rightarrow> (Inl e, \<sigma>')
         | Inr modifiedRule \<Rightarrow>
             (Inr (''['' @ getRuleTag (arrays \<sigma>') rule ruleGroupsWithRule @ '': ''
                   @ applyResultTransformer (output_str modifiedRule) i ruleGroupsWithRule
                   @ '']''), \<sigma>'))"

text \<open>
  Lines 137--153: the loop over \<^verbatim>\<open>sortedRules\<close>. \<^verbatim>\<open>result\<close> is the empty string when the
  loop starts, so what it returns is what the loop appended.
\<close>

fun scanRules ::
  "(ruleRef \<Rightarrow> 'w FizzBuzzRule) \<Rightarrow> 'w TaggedRuleGroup list \<Rightarrow> int \<Rightarrow> ruleRef list \<Rightarrow> 'w state
   \<Rightarrow> (error + string) \<times> 'w state" where
  "scanRules arena matchingGroups i [] \<sigma> = (Inr [], \<sigma>)"
| "scanRules arena matchingGroups i (rule # rest) \<sigma> =
     (if (case filter_fn (arena rule) of Some f \<Rightarrow> \<not> f i None | None \<Rightarrow> False)
      then scanRules arena matchingGroups i rest \<sigma>
      else if evaluateRule (arena rule) i None
      then applyMatchedRule arena matchingGroups rule i \<sigma>
      else scanRules arena matchingGroups i rest \<sigma>)"

text \<open>Lines 131--159: the loop over the rule sets. The sort writes the array back.\<close>

fun scanRuleSets ::
  "(ruleRef \<Rightarrow> 'w FizzBuzzRule) \<Rightarrow> 'w TaggedRuleGroup list \<Rightarrow> int \<Rightarrow> RuleSet list \<Rightarrow> 'w state
   \<Rightarrow> (error + string) \<times> 'w state" where
  "scanRuleSets arena matchingGroups i [] \<sigma> = (Inr [], \<sigma>)"
| "scanRuleSets arena matchingGroups i (ruleSet # rest) \<sigma> =
     (if RuleSet.condition ruleSet i None
      then
        (let sorted = sortArray (comparePriority arena) (arrays \<sigma> (RuleSet.rules ruleSet));
             \<sigma>1 = \<sigma>\<lparr>arrays := (arrays \<sigma>)(RuleSet.rules ruleSet := sorted)\<rparr>;
             sortedRules = removeDuplicates sorted
         in case scanRules arena matchingGroups i sortedRules \<sigma>1 of
              (Inl e, \<sigma>2) \<Rightarrow> (Inl e, \<sigma>2)
            | (Inr result, \<sigma>2) \<Rightarrow>
                if result \<noteq> [] then (Inr result, \<sigma>2)
                else scanRuleSets arena matchingGroups i rest \<sigma>2)
      else scanRuleSets arena matchingGroups i rest \<sigma>)"

definition applyRules ::
  "(ruleRef \<Rightarrow> 'w FizzBuzzRule) \<Rightarrow> 'w RuleGroupSelector list \<Rightarrow> RuleSelector list
   \<Rightarrow> (int \<Rightarrow> string) \<Rightarrow> int \<Rightarrow> 'w state \<Rightarrow> (error + string) \<times> 'w state" where
  "applyRules arena groupSelectors setSelectors defaultOutput i \<sigma> =
     (let matchingGroups = collectGroups groupSelectors i;
          ruleSets = collectRuleSets setSelectors i
      in case scanRuleSets arena matchingGroups i ruleSets \<sigma> of
           (Inl e, \<sigma>') \<Rightarrow> (Inl e, \<sigma>')
         | (Inr result, \<sigma>') \<Rightarrow> (Inr (if result = [] then defaultOutput i else result), \<sigma>'))"

subsection \<open>The sequence: \<^verbatim>\<open>fizzBuzz\<close> (lines 86--93 and 168--176)\<close>

text \<open>
  \<^verbatim>\<open>Math.ceil((end - start + 1) / step)\<close>. Division by zero gives an infinity or \<^verbatim>\<open>NaN\<close>,
  which \<^verbatim>\<open>Math.ceil\<close> returns unchanged.
\<close>

datatype number = Finite int | PosInfinity | NegInfinity | NaN

definition sequenceLength :: "int \<Rightarrow> int \<Rightarrow> int \<Rightarrow> number" where
  "sequenceLength start end_num step =
     (if step = 0
      then (if 0 < end_num - start + 1 then PosInfinity
            else if end_num - start + 1 < 0 then NegInfinity else NaN)
      else Finite \<lceil>real_of_int (end_num - start + 1) / real_of_int step\<rceil>)"


text \<open>
  \<^verbatim>\<open>Array.from({ length: n }, f)\<close>: the length is clamped below at \<open>0\<close> (\<^verbatim>\<open>NaN\<close> counts
  as \<open>0\<close>) and \<open>f\<close> is called on the indices \<open>0, 1, \<dots>\<close> in order. An array has at most \<open>2\<^sup>3\<^sup>2 - 1 = 4294967295\<close> elements: a
  greater length, finite or infinite, is refused with a \<^verbatim>\<open>RangeError\<close> before \<open>f\<close> is called.
\<close>

fun arrayLength :: "number \<Rightarrow> error + nat" where
  "arrayLength (Finite n) = (if 4294967295 < n then Inl RangeError else Inr (nat n))"
| "arrayLength PosInfinity = Inl RangeError"
| "arrayLength NegInfinity = Inr 0"
| "arrayLength NaN = Inr 0"

fun mapIndices ::
  "(nat \<Rightarrow> 's \<Rightarrow> (error + 'a) \<times> 's) \<Rightarrow> nat list \<Rightarrow> 's \<Rightarrow> (error + 'a list) \<times> 's" where
  "mapIndices f [] \<sigma> = (Inr [], \<sigma>)"
| "mapIndices f (index # rest) \<sigma> =
     (case f index \<sigma> of
        (Inl e, \<sigma>') \<Rightarrow> (Inl e, \<sigma>')
      | (Inr r, \<sigma>') \<Rightarrow>
          (case mapIndices f rest \<sigma>' of
             (Inl e, \<sigma>'') \<Rightarrow> (Inl e, \<sigma>'')
           | (Inr rs, \<sigma>'') \<Rightarrow> (Inr (r # rs), \<sigma>'')))"

definition arrayFrom ::
  "number \<Rightarrow> (nat \<Rightarrow> 's \<Rightarrow> (error + 'a) \<times> 's) \<Rightarrow> 's \<Rightarrow> (error + 'a list) \<times> 's" where
  "arrayFrom len f \<sigma> =
     (case arrayLength len of
        Inl e \<Rightarrow> (Inl e, \<sigma>)
      | Inr n \<Rightarrow> mapIndices f [0..<n] \<sigma>)"

text \<open>
  The default arguments: \<^verbatim>\<open>num.toString()\<close> and \<^verbatim>\<open>results.join(' ')\<close>. \<open>toString\<close> writes all the
  digits of its argument, as the source does for a safe integer.
\<close>

fun digits :: "nat \<Rightarrow> string" where
  "digits n = (if n < 10 then [''0123456789'' ! n]
               else digits (n div 10) @ [''0123456789'' ! (n mod 10)])"

declare digits.simps [simp del]

definition toString :: "int \<Rightarrow> string" where
  "toString num = (if num < 0 then CHR ''-'' # digits (nat (- num)) else digits (nat num))"

fun join :: "string \<Rightarrow> string list \<Rightarrow> string" where
  "join separator [] = []"
| "join separator [x] = x"
| "join separator (x # y # ys) = x @ separator @ join separator (y # ys)"

text \<open>
  An argument with a default is an option; \<open>None\<close> is the omitted argument. The argument
  \<^verbatim>\<open>end\<close> is called \<open>end_num\<close>, since \<^verbatim>\<open>end\<close> is a keyword of Isabelle.
\<close>

definition fizzBuzz ::
  "(ruleRef \<Rightarrow> 'w FizzBuzzRule) \<Rightarrow> int \<Rightarrow> int \<Rightarrow> int \<Rightarrow> 'w FizzBuzzPlugin list option
   \<Rightarrow> (int \<Rightarrow> string) option \<Rightarrow> ResultFormatter option \<Rightarrow> 'w state
   \<Rightarrow> (error + string) \<times> 'w state" where
  "fizzBuzz arena start end_num step plugins defaultOutput resultFormatter \<sigma> =
     (let pluginList = (case plugins of Some ps \<Rightarrow> ps | None \<Rightarrow> []);
          defaultOut = (case defaultOutput of Some f \<Rightarrow> f | None \<Rightarrow> toString);
          formatter = (case resultFormatter of Some f \<Rightarrow> f | None \<Rightarrow> join '' '')
      in case extractPlugins pluginList of
           (groupSelectors, setSelectors, groupModifiers, formatters) \<Rightarrow>
             (case arrayFrom (sequenceLength start end_num step)
                     (\<lambda>index. applyRules arena groupSelectors setSelectors defaultOut
                                (start + int index * step)) \<sigma> of
                (Inl e, \<sigma>') \<Rightarrow> (Inl e, \<sigma>')
              | (Inr results, \<sigma>') \<Rightarrow> (Inr (formatter results), \<sigma>')))"

subsection \<open>The specification's notions\<close>

text \<open>
  The definitions of this subsection are not part of the program. They say, in the words
  of the specification, what the theorems below compare the program with.
\<close>

text \<open>An absent optional array contributes nothing.\<close>

definition fieldOrEmpty :: "'a list option \<Rightarrow> 'a list" where
  "fieldOrEmpty field = (case field of Some xs \<Rightarrow> xs | None \<Rightarrow> [])"

text \<open>A rule applies to a number when it passes its filter (if it has one) and matches.\<close>

definition ruleApplies :: "(ruleRef \<Rightarrow> 'w FizzBuzzRule) \<Rightarrow> int \<Rightarrow> ruleRef \<Rightarrow> bool" where
  "ruleApplies arena i rule =
     ((case filter_fn (arena rule) of Some f \<Rightarrow> f i None | None \<Rightarrow> True)
      \<and> evaluateRule (arena rule) i None)"

text \<open>
  The rules of a rule set in the order in which they are tried: stably sorted by priority,
  ascending, then without the rules that repeat their immediate predecessor. \<open>sort_key\<close> is
  the stable sort of the library and \<open>remdups_adj\<close> its removal of adjacent duplicates.
\<close>

definition candidates ::
  "(ruleRef \<Rightarrow> 'w FizzBuzzRule) \<Rightarrow> (arrRef \<Rightarrow> ruleRef list) \<Rightarrow> RuleSet \<Rightarrow> ruleRef list" where
  "candidates arena arrs ruleSet =
     remdups_adj (sort_key (\<lambda>rule. priorityOr0 (arena rule)) (arrs (RuleSet.rules ruleSet)))"

text \<open>
  The rule of a rule set that produces the output: none when the condition of the set
  fails, otherwise the first candidate that applies.
\<close>

definition setWinner ::
  "(ruleRef \<Rightarrow> 'w FizzBuzzRule) \<Rightarrow> (arrRef \<Rightarrow> ruleRef list) \<Rightarrow> int \<Rightarrow> RuleSet
   \<Rightarrow> ruleRef option" where
  "setWinner arena arrs i ruleSet =
     (if RuleSet.condition ruleSet i None
      then find (ruleApplies arena i) (candidates arena arrs ruleSet)
      else None)"

text \<open>The first element of a list, in list order, for which \<open>f\<close> yields a result.\<close>

fun firstSome :: "('a \<Rightarrow> 'b option) \<Rightarrow> 'a list \<Rightarrow> 'b option" where
  "firstSome f [] = None"
| "firstSome f (x # xs) = (case f x of Some y \<Rightarrow> Some y | None \<Rightarrow> firstSome f xs)"

text \<open>
  The elements that the search for that first result looks at: those up to and including
  the first one for which \<open>f\<close> yields a result, and all of them when there is none.
\<close>

fun reachedSets :: "('a \<Rightarrow> 'b option) \<Rightarrow> 'a list \<Rightarrow> 'a list" where
  "reachedSets f [] = []"
| "reachedSets f (x # xs) = (case f x of Some y \<Rightarrow> [x] | None \<Rightarrow> x # reachedSets f xs)"



text \<open>
  Two inputs differ only in a field when they are equal once that field is overwritten with
  a fixed value. \<open>forgetUnusedFields\<close> overwrites \<^verbatim>\<open>ruleGroupModifiers\<close> of a plugin and
  \<^verbatim>\<open>selectBehavior\<close> of every group its selectors return; \<open>forgetRuleTransformer\<close> overwrites
  the \<^verbatim>\<open>resultTransformer\<close> of a rule.
\<close>

definition forgetSelectBehavior :: "'w TaggedRuleGroup \<Rightarrow> 'w TaggedRuleGroup" where
  "forgetSelectBehavior grp = grp\<lparr>selectBehavior := All\<rparr>"

definition forgetInSelector :: "'w RuleGroupSelector \<Rightarrow> 'w RuleGroupSelector" where
  "forgetInSelector selector =
     (\<lambda>num context. map_option (map forgetSelectBehavior) (selector num context))"

definition forgetUnusedFields :: "'w FizzBuzzPlugin \<Rightarrow> 'w FizzBuzzPlugin" where
  "forgetUnusedFields plugin =
     plugin\<lparr>ruleGroupSelectors := map_option (map forgetInSelector) (ruleGroupSelectors plugin),
            ruleGroupModifiers := None\<rparr>"

definition forgetRuleTransformer :: "'w FizzBuzzRule \<Rightarrow> 'w FizzBuzzRule" where
  "forgetRuleTransformer rule = rule\<lparr>FizzBuzzRule.resultTransformer := None\<rparr>"

text \<open>Two auxiliary notions of the proofs.\<close>

fun afterPrev :: "'a \<Rightarrow> 'a list \<Rightarrow> 'a list" where
  "afterPrev p [] = []"
| "afterPrev p (x # xs) = (if x = p then afterPrev x xs else x # afterPrev x xs)"

definition sortedFrom ::
  "(ruleRef \<Rightarrow> 'w FizzBuzzRule) \<Rightarrow> (arrRef \<Rightarrow> ruleRef list) \<Rightarrow> (arrRef \<Rightarrow> ruleRef list) \<Rightarrow> bool" where
  "sortedFrom arena arrs0 arrs =
     (\<forall>a. arrs a = arrs0 a \<or> arrs a = sort_key (\<lambda>rule. priorityOr0 (arena rule)) (arrs0 a))"

subsection \<open>Example objects\<close>

text \<open>
  Concrete rules, arrays, rule sets, groups and plugins on which the theorems are
  instantiated. The outside world of the examples is the list of numbers on which an event
  has fired. Rule \<open>1\<close> has priority \<open>1\<close> and rule \<open>2\<close> priority \<open>2\<close>, both always match, and
  array \<open>0\<close> lists rule \<open>2\<close> first. Rule \<open>4\<close> has only the \<^verbatim>\<open>condition\<close> field, rule \<open>5\<close> has
  both predicates, and rule \<open>0\<close> (like every other reference) has neither.
\<close>

definition alwaysRule :: "string \<Rightarrow> int option \<Rightarrow> int list FizzBuzzRule" where
  "alwaysRule out p =
     \<lparr>evaluator = Some (\<lambda>num context. True), FizzBuzzRule.condition = None, output_str = out,
      events = None, filter_fn = None, priority = p, FizzBuzzRule.resultTransformer = None\<rparr>"

definition exampleArena :: "ruleRef \<Rightarrow> int list FizzBuzzRule" where
  "exampleArena ref =
     (if ref = 1 then alwaysRule ''One'' (Some 1)
      else if ref = 2 then alwaysRule ''Two'' (Some 2)
      else if ref = 3 then (alwaysRule ''Fizz'' None)\<lparr>events := Some [\<lambda>num log. log @ [num]]\<rparr>
      else if ref = 4 then
        (alwaysRule ''Buzz'' None)\<lparr>evaluator := None,
           FizzBuzzRule.condition := Some (\<lambda>num context. num mod 5 = 0)\<rparr>
      else if ref = 5 then
        (alwaysRule ''Even'' None)\<lparr>evaluator := Some (\<lambda>num context. num mod 2 = 0),
           FizzBuzzRule.condition := Some (\<lambda>num context. True)\<rparr>
      else (alwaysRule ''Never'' None)\<lparr>evaluator := None\<rparr>)"

definition exampleArrays :: "arrRef \<Rightarrow> ruleRef list" where
  "exampleArrays a = (if a = 0 then [2, 1] else if a = 1 then [3] else if a = 2 then [0] else [])"

definition exampleState :: "int list state" where
  "exampleState = \<lparr>arrays = exampleArrays, world = []\<rparr>"

definition prioritySet :: RuleSet where
  "prioritySet = \<lparr>RuleSet.condition = (\<lambda>num context. True), RuleSet.rules = 0\<rparr>"

definition fizzSet :: RuleSet where
  "fizzSet = \<lparr>RuleSet.condition = (\<lambda>num context. True), RuleSet.rules = 1\<rparr>"

definition malformedSet :: RuleSet where
  "malformedSet = \<lparr>RuleSet.condition = (\<lambda>num context. True), RuleSet.rules = 2\<rparr>"

definition prioritySelector :: RuleSelector where
  "prioritySelector = (\<lambda>num context. Some [prioritySet])"

definition fizzSelector :: RuleSelector where
  "fizzSelector = (\<lambda>num context. if num mod 3 = 0 then Some [fizzSet] else None)"

definition malformedSelector :: RuleSelector where
  "malformedSelector = (\<lambda>num context. Some [malformedSet])"

definition groupA :: "int list TaggedRuleGroup" where
  "groupA = \<lparr>tag = ''A'', TaggedRuleGroup.rules = 0, selectBehavior = All, decorators = None,
             TaggedRuleGroup.resultTransformer = Some (\<lambda>text num context. text @ ''!'')\<rparr>"

definition groupB :: "int list TaggedRuleGroup" where
  "groupB = \<lparr>tag = ''B'', TaggedRuleGroup.rules = 0, selectBehavior = First, decorators = None,
             TaggedRuleGroup.resultTransformer = Some (\<lambda>text num context. ''<'' @ text @ ''>'')\<rparr>"

definition groupD :: "int list TaggedRuleGroup" where
  "groupD = \<lparr>tag = ''D'', TaggedRuleGroup.rules = 0, selectBehavior = All,
             decorators = Some [\<lambda>rule context. rule\<lparr>output_str := output_str rule @ ''1''\<rparr>,
                                \<lambda>rule context. rule\<lparr>output_str := output_str rule @ ''2''\<rparr>],
             TaggedRuleGroup.resultTransformer = None\<rparr>"

definition decoratedPlugin :: "int list FizzBuzzPlugin" where
  "decoratedPlugin =
     \<lparr>ruleGroupSelectors = Some [\<lambda>num context. Some [groupD]],
      ruleSelectors = Some [prioritySelector],
      ruleGroupModifiers = None, resultFormatters = None\<rparr>"

definition taggedPlugin :: "int list FizzBuzzPlugin" where
  "taggedPlugin =
     \<lparr>ruleGroupSelectors = Some [\<lambda>num context. Some [groupA]],
      ruleSelectors = Some [fizzSelector, prioritySelector],
      ruleGroupModifiers = None, resultFormatters = None\<rparr>"

definition taggedPlugin' :: "int list FizzBuzzPlugin" where
  "taggedPlugin' =
     \<lparr>ruleGroupSelectors = Some [\<lambda>num context. Some [groupA\<lparr>selectBehavior := Last\<rparr>]],
      ruleSelectors = Some [fizzSelector, prioritySelector],
      ruleGroupModifiers = Some [\<lambda>groups context. []], resultFormatters = None\<rparr>"

definition exampleArena' :: "ruleRef \<Rightarrow> int list FizzBuzzRule" where
  "exampleArena' ref =
     (exampleArena ref)\<lparr>FizzBuzzRule.resultTransformer := Some (\<lambda>text num context. ''changed'')\<rparr>"

section \<open>Properties\<close>

subsection \<open>The sort and the removal of repeats\<close>

text \<open>
  With the priority comparator, the model of \<^verbatim>\<open>sort\<close> is the stable sort by key of the library,
  and the index-based filter of line 135 is the removal of adjacent duplicates.
\<close>

lemma insertSorted_insort_key:
  "insertSorted (comparePriority arena) x ys = insort_key (\<lambda>r. priorityOr0 (arena r)) x ys"
  by (induction ys) (simp_all add: comparePriority_def)

lemma sortArray_sort_key:
  "sortArray (comparePriority arena) xs = sort_key (\<lambda>r. priorityOr0 (arena r)) xs"
proof -
  have "insertSorted (comparePriority arena) = insort_key (\<lambda>r. priorityOr0 (arena r))"
    by (intro ext) (rule insertSorted_insort_key)
  then show ?thesis
    by (simp add: sortArray_def sort_key_def)
qed

lemma remdups_adj_afterPrev: "remdups_adj (p # xs) = p # afterPrev p xs"
  by (induction xs arbitrary: p) auto

lemma filter_index_afterPrev:
  "0 < k \<Longrightarrow> \<forall>j < length xs. self ! (k + j) = xs ! j \<Longrightarrow>
   map snd (filter (\<lambda>(index, rule). index = 0 \<or> rule \<noteq> self ! (index - 1))
              (zip [k..<k + length xs] xs)) = afterPrev (self ! (k - 1)) xs"
proof (induction xs arbitrary: k)
  case Nil
  then show ?case by simp
next
  case (Cons x xs)
  have shift: "\<forall>j < length xs. self ! (Suc k + j) = xs ! j"
    using Cons.prems(2) by (metis Suc_less_eq add_Suc_right add_Suc length_Cons nth_Cons_Suc)
  have here: "self ! k = x"
    using Cons.prems(2) by (metis add.right_neutral length_Cons nth_Cons_0 zero_less_Suc)
  have upt: "[k..<k + length (x # xs)] = k # [Suc k..<Suc k + length xs]"
    by (simp add: upt_rec)
  have tail: "map snd (filter (\<lambda>(index, rule). index = 0 \<or> rule \<noteq> self ! (index - 1))
              (zip [Suc k..<Suc k + length xs] xs)) = afterPrev x xs"
    using Cons.IH[of "Suc k"] shift here by simp
  show ?case
    unfolding upt using tail Cons.prems(1) by auto
qed

lemma removeDuplicates_remdups_adj: "removeDuplicates xs = remdups_adj xs"
proof (cases xs)
  case Nil
  then show ?thesis by (simp add: removeDuplicates_def)
next
  case (Cons p ys)
  have upt: "[0..<length (p # ys)] = 0 # [1..<1 + length ys]"
    by (simp add: upt_rec)
  have "map snd (filter (\<lambda>(index, rule). index = 0 \<or> rule \<noteq> (p # ys) ! (index - 1))
              (zip [1..<1 + length ys] ys)) = afterPrev ((p # ys) ! (1 - 1)) ys"
    by (rule filter_index_afterPrev) simp_all
  then show ?thesis
    unfolding Cons removeDuplicates_def upt by (simp add: remdups_adj_afterPrev)
qed

lemma sortArray_sorted:
  "sorted (map (\<lambda>r. priorityOr0 (arena r)) (sortArray (comparePriority arena) xs))"
  by (simp add: sortArray_sort_key)

lemma sortArray_stable:
  "filter (\<lambda>r. priorityOr0 (arena r) = k) (sortArray (comparePriority arena) xs)
   = filter (\<lambda>r. priorityOr0 (arena r) = k) xs"
  by (simp add: sortArray_sort_key sort_key_stable)

lemma sortArray_mset: "mset (sortArray (comparePriority arena) xs) = mset xs"
  by (simp add: sortArray_sort_key)

subsection \<open>The matched rule and the loop over the rules\<close>

lemma reduceApplyDecorators_eq:
  "reduceApplyDecorators ds index acc = (if ds = [] then Inr acc else Inl TypeError)"
  by (cases ds) simp_all

lemma applyMatchedRule_arrays [simp]:
  "arrays (snd (applyMatchedRule arena mg rule i \<sigma>)) = arrays \<sigma>"
  by (simp add: applyMatchedRule_def Let_def reduceApplyDecorators_eq)

lemma applyMatchedRule_nonempty:
  "fst (applyMatchedRule arena mg rule i \<sigma>) \<noteq> Inr []"
  by (simp add: applyMatchedRule_def Let_def reduceApplyDecorators_eq)

lemma includesRule_set: "includesRule arrs grp rule \<longleftrightarrow> rule \<in> set (arrs (TaggedRuleGroup.rules grp))"
  by (simp add: includesRule_def)

lemma includesRule_cong:
  "\<forall>a. set (arrs' a) = set (arrs a) \<Longrightarrow> includesRule arrs' grp rule = includesRule arrs grp rule"
  by (simp add: includesRule_set)

lemma applyMatchedRule_fst_cong:
  assumes "\<forall>a. set (arrays \<sigma>' a) = set (arrays \<sigma> a)"
  shows "fst (applyMatchedRule arena mg rule i \<sigma>') = fst (applyMatchedRule arena mg rule i \<sigma>)"
proof -
  have inc: "\<And>grp. includesRule (arrays \<sigma>') grp rule = includesRule (arrays \<sigma>) grp rule"
    using assms by (rule includesRule_cong)
  show ?thesis
    by (simp add: applyMatchedRule_def Let_def reduceApplyDecorators_eq getRuleTag_def inc)
qed

lemma scanRules_find:
  "scanRules arena mg i rs \<sigma> =
     (case find (ruleApplies arena i) rs of
        None \<Rightarrow> (Inr [], \<sigma>)
      | Some rule \<Rightarrow> applyMatchedRule arena mg rule i \<sigma>)"
  by (induction rs) (auto simp: ruleApplies_def split: option.splits)

lemma scanRules_arrays [simp]: "arrays (snd (scanRules arena mg i rs \<sigma>)) = arrays \<sigma>"
  by (simp add: scanRules_find split: option.splits)

subsection \<open>The loop over the rule sets\<close>

text \<open>
  The loop sorts arrays as it goes, so a later rule set may read an array that an earlier one
  has sorted. \<open>sortedFrom\<close> relates the store at any point of the loop to the store at its
  start; sorting twice is sorting once, so the candidates of every rule set can be read off
  the store at the start.
\<close>

lemma sort_key_twice: "sort_key f (sort_key f xs) = sort_key f xs"
  by (simp add: sort_key_id_if_sorted)

lemma sortedFrom_refl: "sortedFrom arena arrs arrs"
  by (simp add: sortedFrom_def)

lemma sortedFrom_set: "sortedFrom arena arrs0 arrs \<Longrightarrow> set (arrs a) = set (arrs0 a)"
  unfolding sortedFrom_def by (metis set_sort)

lemma sortedFrom_sort:
  "sortedFrom arena arrs0 arrs \<Longrightarrow>
   sort_key (\<lambda>rule. priorityOr0 (arena rule)) (arrs a) = sort_key (\<lambda>rule. priorityOr0 (arena rule)) (arrs0 a)"
  unfolding sortedFrom_def by (metis sort_key_twice)

lemma sortedFrom_upd:
  assumes "sortedFrom arena arrs0 arrs"
  shows "sortedFrom arena arrs0 (arrs(a := sort_key (\<lambda>rule. priorityOr0 (arena rule)) (arrs a)))"
  using assms sortedFrom_sort[OF assms, of a] by (simp add: sortedFrom_def)

lemma scanRuleSets_step:
  "scanRuleSets arena mg i (ruleSet # rest) \<sigma> =
     (if RuleSet.condition ruleSet i None
      then
        (let \<sigma>1 = \<sigma>\<lparr>arrays := (arrays \<sigma>)(RuleSet.rules ruleSet :=
                     sort_key (\<lambda>rule. priorityOr0 (arena rule)) (arrays \<sigma> (RuleSet.rules ruleSet)))\<rparr>
         in case find (ruleApplies arena i) (candidates arena (arrays \<sigma>) ruleSet) of
              Some rule \<Rightarrow> applyMatchedRule arena mg rule i \<sigma>1
            | None \<Rightarrow> scanRuleSets arena mg i rest \<sigma>1)
      else scanRuleSets arena mg i rest \<sigma>)"
proof (cases "RuleSet.condition ruleSet i None")
  case False
  then show ?thesis by simp
next
  case True
  define \<sigma>1 where "\<sigma>1 = \<sigma>\<lparr>arrays := (arrays \<sigma>)(RuleSet.rules ruleSet :=
                     sort_key (\<lambda>rule. priorityOr0 (arena rule)) (arrays \<sigma> (RuleSet.rules ruleSet)))\<rparr>"
  show ?thesis
  proof (cases "find (ruleApplies arena i) (candidates arena (arrays \<sigma>) ruleSet)")
    case None
    then show ?thesis
      using True
      by (simp add: Let_def sortArray_sort_key removeDuplicates_remdups_adj scanRules_find
            candidates_def)
  next
    case (Some rule)
    obtain r \<sigma>2 where res: "applyMatchedRule arena mg rule i \<sigma>1 = (r, \<sigma>2)"
      by (cases "applyMatchedRule arena mg rule i \<sigma>1")
    have "r \<noteq> Inr []"
      using applyMatchedRule_nonempty[of arena mg rule i \<sigma>1] res by simp
    then show ?thesis
      using True Some res
      by (cases r) (simp_all add: Let_def sortArray_sort_key removeDuplicates_remdups_adj
            scanRules_find candidates_def \<sigma>1_def)
  qed
qed

lemma candidates_cong:
  "sortedFrom arena arrs0 arrs \<Longrightarrow> candidates arena arrs ruleSet = candidates arena arrs0 ruleSet"
  by (simp add: candidates_def sortedFrom_sort)

lemma scanRuleSets_winner:
  assumes "sortedFrom arena (arrays \<sigma>0) (arrays \<sigma>)"
  shows "fst (scanRuleSets arena mg i ruleSets \<sigma>) =
     (case firstSome (setWinner arena (arrays \<sigma>0) i) ruleSets of
        None \<Rightarrow> Inr []
      | Some rule \<Rightarrow> fst (applyMatchedRule arena mg rule i \<sigma>0))"
  using assms
proof (induction ruleSets arbitrary: \<sigma>)
  case Nil
  then show ?case by simp
next
  case (Cons ruleSet rest)
  let ?key = "\<lambda>rule. priorityOr0 (arena rule)"
  let ?\<sigma>1 = "\<sigma>\<lparr>arrays := (arrays \<sigma>)(RuleSet.rules ruleSet :=
                     sort_key ?key (arrays \<sigma> (RuleSet.rules ruleSet)))\<rparr>"
  have inv1: "sortedFrom arena (arrays \<sigma>0) (arrays ?\<sigma>1)"
    using sortedFrom_upd[OF Cons.prems] by simp
  have cand: "candidates arena (arrays \<sigma>) ruleSet = candidates arena (arrays \<sigma>0) ruleSet"
    using Cons.prems by (rule candidates_cong)
  show ?case
  proof (cases "RuleSet.condition ruleSet i None")
    case False
    then show ?thesis
      using Cons.IH[OF Cons.prems] by (simp add: setWinner_def)
  next
    case True
    show ?thesis
    proof (cases "find (ruleApplies arena i) (candidates arena (arrays \<sigma>0) ruleSet)")
      case None
      then show ?thesis
        using True cand Cons.IH[OF inv1]
        by (simp add: scanRuleSets_step setWinner_def del: scanRuleSets.simps)
    next
      case (Some rule)
      have "\<forall>a. set (arrays ?\<sigma>1 a) = set (arrays \<sigma>0 a)"
        using sortedFrom_set[OF inv1] by blast
      then have "fst (applyMatchedRule arena mg rule i ?\<sigma>1)
            = fst (applyMatchedRule arena mg rule i \<sigma>0)"
        by (rule applyMatchedRule_fst_cong)
      then show ?thesis
        using True cand Some
        by (simp add: scanRuleSets_step setWinner_def del: scanRuleSets.simps)
    qed
  qed
qed

lemma scanRuleSets_arrays:
  "arrays (snd (scanRuleSets arena mg i ruleSets \<sigma>)) a = arrays \<sigma> a \<or>
   ((\<exists>ruleSet \<in> set ruleSets. RuleSet.rules ruleSet = a \<and> RuleSet.condition ruleSet i None) \<and>
    arrays (snd (scanRuleSets arena mg i ruleSets \<sigma>)) a
      = sort_key (\<lambda>rule. priorityOr0 (arena rule)) (arrays \<sigma> a))"
proof (induction ruleSets arbitrary: \<sigma>)
  case Nil
  then show ?case by simp
next
  case (Cons ruleSet rest)
  let ?key = "\<lambda>rule. priorityOr0 (arena rule)"
  let ?\<sigma>1 = "\<sigma>\<lparr>arrays := (arrays \<sigma>)(RuleSet.rules ruleSet :=
                     sort_key ?key (arrays \<sigma> (RuleSet.rules ruleSet)))\<rparr>"
  show ?case
  proof (cases "RuleSet.condition ruleSet i None")
    case False
    then show ?thesis
      using Cons.IH[of \<sigma>] by auto
  next
    case True
    show ?thesis
    proof (cases "find (ruleApplies arena i) (candidates arena (arrays \<sigma>) ruleSet)")
      case None
      then show ?thesis
        using True Cons.IH[of ?\<sigma>1]
        by (auto simp: scanRuleSets_step sort_key_twice simp del: scanRuleSets.simps)
    next
      case (Some rule)
      then show ?thesis
        using True
        by (auto simp: scanRuleSets_step simp del: scanRuleSets.simps)
    qed
  qed
qed

lemma reachedSets_subset: "set (reachedSets f xs) \<subseteq> set xs"
  by (induction xs) (auto split: option.splits)

lemma scanRuleSets_reached:
  assumes "sortedFrom arena arrs0 (arrays \<sigma>)"
  shows "arrays (snd (scanRuleSets arena mg i ruleSets \<sigma>)) a =
     (if \<exists>ruleSet \<in> set (reachedSets (setWinner arena arrs0 i) ruleSets).
           RuleSet.rules ruleSet = a \<and> RuleSet.condition ruleSet i None
      then sort_key (\<lambda>rule. priorityOr0 (arena rule)) (arrays \<sigma> a)
      else arrays \<sigma> a)"
  using assms
proof (induction ruleSets arbitrary: \<sigma>)
  case Nil
  then show ?case by simp
next
  case (Cons ruleSet rest)
  let ?key = "\<lambda>rule. priorityOr0 (arena rule)"
  let ?\<sigma>1 = "\<sigma>\<lparr>arrays := (arrays \<sigma>)(RuleSet.rules ruleSet :=
                     sort_key ?key (arrays \<sigma> (RuleSet.rules ruleSet)))\<rparr>"
  have inv1: "sortedFrom arena arrs0 (arrays ?\<sigma>1)"
    using sortedFrom_upd[OF Cons.prems] by simp
  have cand: "candidates arena (arrays \<sigma>) ruleSet = candidates arena arrs0 ruleSet"
    using Cons.prems by (rule candidates_cong)
  show ?case
  proof (cases "RuleSet.condition ruleSet i None")
    case False
    then have "setWinner arena arrs0 i ruleSet = None"
      by (simp add: setWinner_def)
    then show ?thesis
      using False Cons.IH[OF Cons.prems] by auto
  next
    case True
    show ?thesis
    proof (cases "find (ruleApplies arena i) (candidates arena arrs0 ruleSet)")
      case None
      then have "setWinner arena arrs0 i ruleSet = None"
        by (simp add: setWinner_def)
      then show ?thesis
        using True None cand Cons.IH[OF inv1]
        by (auto simp: scanRuleSets_step sort_key_twice simp del: scanRuleSets.simps)
    next
      case (Some rule)
      then have "setWinner arena arrs0 i ruleSet = Some rule"
        using True by (simp add: setWinner_def)
      then show ?thesis
        using True Some cand
        by (auto simp: scanRuleSets_step simp del: scanRuleSets.simps)
    qed
  qed
qed

subsection \<open>Evaluating one number\<close>

lemma foldl_append_concat: "foldl (\<lambda>acc x. acc @ f x) a xs = a @ concat (map f xs)"
  by (induction xs arbitrary: a) simp_all

lemma collectGroups_concat:
  "collectGroups groupSelectors i = concat (map (\<lambda>sel. fieldOrEmpty (sel i None)) groupSelectors)"
  unfolding collectGroups_def fieldOrEmpty_def
  using foldl_append_concat[of "\<lambda>sel. case sel i None of Some gs \<Rightarrow> gs | None \<Rightarrow> []" "[]" groupSelectors]
  by simp

lemma collectRuleSets_concat:
  "collectRuleSets setSelectors i = concat (map (\<lambda>sel. fieldOrEmpty (sel i None)) setSelectors)"
  unfolding collectRuleSets_def fieldOrEmpty_def
  using foldl_append_concat[of "\<lambda>sel. case sel i None of Some gs \<Rightarrow> gs | None \<Rightarrow> []" "[]" setSelectors]
  by simp

lemma applyRules_fst:
  "fst (applyRules arena groupSelectors setSelectors defaultOutput i \<sigma>) =
     (case fst (scanRuleSets arena (collectGroups groupSelectors i) i
                  (collectRuleSets setSelectors i) \<sigma>) of
        Inl e \<Rightarrow> Inl e
      | Inr result \<Rightarrow> Inr (if result = [] then defaultOutput i else result))"
  by (simp add: applyRules_def split: prod.splits sum.splits)

lemma applyRules_snd:
  "snd (applyRules arena groupSelectors setSelectors defaultOutput i \<sigma>) =
     snd (scanRuleSets arena (collectGroups groupSelectors i) i (collectRuleSets setSelectors i) \<sigma>)"
  by (simp add: applyRules_def split: prod.splits sum.splits)

lemma applyRules_winner:
  "fst (applyRules arena groupSelectors setSelectors defaultOutput i \<sigma>) =
     (case firstSome (setWinner arena (arrays \<sigma>) i) (collectRuleSets setSelectors i) of
        None \<Rightarrow> Inr (defaultOutput i)
      | Some rule \<Rightarrow> fst (applyMatchedRule arena (collectGroups groupSelectors i) rule i \<sigma>))"
proof (cases "firstSome (setWinner arena (arrays \<sigma>) i) (collectRuleSets setSelectors i)")
  case None
  then show ?thesis
    by (simp add: applyRules_fst scanRuleSets_winner[OF sortedFrom_refl])
next
  case (Some rule)
  let ?label = "fst (applyMatchedRule arena (collectGroups groupSelectors i) rule i \<sigma>)"
  have "(case ?label of Inl e \<Rightarrow> Inl e
         | Inr result \<Rightarrow> Inr (if result = [] then defaultOutput i else result)) = ?label"
    using applyMatchedRule_nonempty[of arena "collectGroups groupSelectors i" rule i \<sigma>]
    by (cases ?label) simp_all
  then show ?thesis
    using Some by (simp add: applyRules_fst scanRuleSets_winner[OF sortedFrom_refl])
qed





lemma firstSome_None: "(\<forall>x \<in> set xs. f x = None) \<Longrightarrow> firstSome f xs = None"
  by (induction xs) simp_all

lemma setWinner_None:
  assumes "RuleSet.condition ruleSet i None \<longrightarrow>
           (\<forall>rule \<in> set (arrs (RuleSet.rules ruleSet)). \<not> ruleApplies arena i rule)"
  shows "setWinner arena arrs i ruleSet = None"
  using assms by (auto simp: setWinner_def candidates_def find_None_iff)

lemma applyRules_arrays:
  "arrays (snd (applyRules arena groupSelectors setSelectors defaultOutput i \<sigma>)) a = arrays \<sigma> a \<or>
   ((\<exists>ruleSet \<in> set (collectRuleSets setSelectors i).
        RuleSet.rules ruleSet = a \<and> RuleSet.condition ruleSet i None) \<and>
    arrays (snd (applyRules arena groupSelectors setSelectors defaultOutput i \<sigma>)) a
      = sort_key (\<lambda>rule. priorityOr0 (arena rule)) (arrays \<sigma> a))"
  unfolding applyRules_snd by (rule scanRuleSets_arrays)

lemma applyRules_reached:
  "arrays (snd (applyRules arena groupSelectors setSelectors defaultOutput i \<sigma>)) a =
     (if \<exists>ruleSet \<in> set (reachedSets (setWinner arena (arrays \<sigma>) i)
                              (collectRuleSets setSelectors i)).
           RuleSet.rules ruleSet = a \<and> RuleSet.condition ruleSet i None
      then sort_key (\<lambda>rule. priorityOr0 (arena rule)) (arrays \<sigma> a)
      else arrays \<sigma> a)"
  unfolding applyRules_snd by (rule scanRuleSets_reached) (rule sortedFrom_refl)

subsection \<open>The label\<close>

lemma find_filter_same: "find P (filter P xs) = find P xs"
  by (induction xs) simp_all

lemma getRuleTag_filter:
  "getRuleTag arrs rule (filter (\<lambda>grp. includesRule arrs grp rule) matchingGroups)
   = getRuleTag arrs rule matchingGroups"
  by (simp add: getRuleTag_def find_filter_same)

lemma transformers_map_filter:
  "concat (map transformersOf groups) = List.map_filter TaggedRuleGroup.resultTransformer groups"
  by (induction groups) (simp_all add: transformersOf_def split: option.splits)

lemma applyMatchedRule_result:
  "fst (applyMatchedRule arena matchingGroups rule i \<sigma>) =
     (let containing = filter (\<lambda>grp. rule \<in> set (arrays \<sigma> (TaggedRuleGroup.rules grp))) matchingGroups
      in if concat (map decoratorsOf containing) = []
         then Inr (''['' @ (case find (\<lambda>grp. rule \<in> set (arrays \<sigma> (TaggedRuleGroup.rules grp))) matchingGroups of
                             Some grp \<Rightarrow> tag grp | None \<Rightarrow> ''Default'')
                   @ '': '' @ foldl (\<lambda>text transformer. transformer text i None) (output_str (arena rule))
                               (List.map_filter TaggedRuleGroup.resultTransformer containing) @ '']'')
         else Inl TypeError)"
proof -
  have inc: "(\<lambda>grp. includesRule (arrays \<sigma>) grp rule) = (\<lambda>grp. rule \<in> set (arrays \<sigma> (TaggedRuleGroup.rules grp)))"
    by (simp add: includesRule_def)
  have tag: "getRuleTag (arrays \<sigma>) rule (filter (\<lambda>grp. rule \<in> set (arrays \<sigma> (TaggedRuleGroup.rules grp))) matchingGroups)
     = (case find (\<lambda>grp. rule \<in> set (arrays \<sigma> (TaggedRuleGroup.rules grp))) matchingGroups of
                             Some grp \<Rightarrow> tag grp | None \<Rightarrow> ''Default'')"
    using getRuleTag_filter[of "arrays \<sigma>" rule matchingGroups] unfolding inc
    by (simp add: getRuleTag_def inc)
  show ?thesis
    unfolding applyMatchedRule_def Let_def
    by (simp add: reduceApplyDecorators_eq inc tag applyResultTransformer_def transformers_map_filter)
qed

subsection \<open>The sequence of numbers\<close>










subsection \<open>Extracting the plugin functions\<close>

lemma pushAll_fieldOrEmpty: "pushAll acc field = acc @ fieldOrEmpty field"
  by (simp add: pushAll_def fieldOrEmpty_def split: option.splits)

lemma foldl_extractPlugin:
  "foldl extractPlugin (a, b, c, d) plugins =
     (a @ concat (map (\<lambda>plugin. fieldOrEmpty (ruleGroupSelectors plugin)) plugins),
      b @ concat (map (\<lambda>plugin. fieldOrEmpty (ruleSelectors plugin)) plugins),
      c @ concat (map (\<lambda>plugin. fieldOrEmpty (ruleGroupModifiers plugin)) plugins),
      d @ concat (map (\<lambda>plugin. fieldOrEmpty (resultFormatters plugin)) plugins))"
  by (induction plugins arbitrary: a b c d) (simp_all add: extractPlugin_def pushAll_fieldOrEmpty)

lemma extractPlugins_concat:
  "extractPlugins plugins =
     (concat (map (\<lambda>plugin. fieldOrEmpty (ruleGroupSelectors plugin)) plugins),
      concat (map (\<lambda>plugin. fieldOrEmpty (ruleSelectors plugin)) plugins),
      concat (map (\<lambda>plugin. fieldOrEmpty (ruleGroupModifiers plugin)) plugins),
      concat (map (\<lambda>plugin. fieldOrEmpty (resultFormatters plugin)) plugins))"
  unfolding extractPlugins_def using foldl_extractPlugin[of "[]" "[]" "[]" "[]" plugins] by simp

subsection \<open>Fields that the pipeline never reads\<close>

lemma includesRule_forget [simp]:
  "includesRule arrs (forgetSelectBehavior grp) rule = includesRule arrs grp rule"
  by (simp add: includesRule_def forgetSelectBehavior_def)

lemma decoratorsOf_forget [simp]: "decoratorsOf (forgetSelectBehavior grp) = decoratorsOf grp"
  by (simp add: decoratorsOf_def forgetSelectBehavior_def)

lemma transformersOf_forget [simp]: "transformersOf (forgetSelectBehavior grp) = transformersOf grp"
  by (simp add: transformersOf_def forgetSelectBehavior_def)

lemma tag_forget [simp]: "tag (forgetSelectBehavior grp) = tag grp"
  by (simp add: forgetSelectBehavior_def)

lemma getRuleTag_forget:
  "getRuleTag arrs rule (map forgetSelectBehavior groups) = getRuleTag arrs rule groups"
  by (induction groups) (simp_all add: getRuleTag_def)

lemma applyMatchedRule_forget:
  "applyMatchedRule arena (map forgetSelectBehavior groups) rule i \<sigma>
   = applyMatchedRule arena groups rule i \<sigma>"
  by (simp add: applyMatchedRule_def Let_def filter_map o_def getRuleTag_forget
        applyResultTransformer_def reduceApplyDecorators_eq)

lemma scanRules_forget:
  "scanRules arena (map forgetSelectBehavior groups) i rs \<sigma> = scanRules arena groups i rs \<sigma>"
  by (simp add: scanRules_find applyMatchedRule_forget split: option.splits)

lemma scanRuleSets_forget:
  "scanRuleSets arena (map forgetSelectBehavior groups) i ruleSets \<sigma>
   = scanRuleSets arena groups i ruleSets \<sigma>"
  by (induction ruleSets arbitrary: \<sigma>)
     (simp_all add: scanRules_forget Let_def split: prod.splits sum.splits)

lemma collectGroups_forget:
  "collectGroups (map forgetInSelector groupSelectors) i
   = map forgetSelectBehavior (collectGroups groupSelectors i)"
  by (induction groupSelectors)
     (simp_all add: collectGroups_concat forgetInSelector_def fieldOrEmpty_def split: option.splits)

lemma applyRules_forget:
  "applyRules arena (map forgetInSelector groupSelectors) setSelectors defaultOutput i
   = applyRules arena groupSelectors setSelectors defaultOutput i"
  by (intro ext) (simp add: applyRules_def collectGroups_forget scanRuleSets_forget)

lemma groupSelectors_forget:
  "concat (map (\<lambda>plugin. fieldOrEmpty (ruleGroupSelectors plugin)) (map forgetUnusedFields plugins))
   = map forgetInSelector (concat (map (\<lambda>plugin. fieldOrEmpty (ruleGroupSelectors plugin)) plugins))"
  by (induction plugins) (simp_all add: forgetUnusedFields_def fieldOrEmpty_def split: option.splits)

lemma setSelectors_forget:
  "concat (map (\<lambda>plugin. fieldOrEmpty (ruleSelectors plugin)) (map forgetUnusedFields plugins))
   = concat (map (\<lambda>plugin. fieldOrEmpty (ruleSelectors plugin)) plugins)"
  by (induction plugins) (simp_all add: forgetUnusedFields_def)

lemma fizzBuzz_selectors:
  "fizzBuzz arena start end_num step plugins defaultOutput resultFormatter \<sigma> =
     (case arrayFrom (sequenceLength start end_num step)
             (\<lambda>index. applyRules arena
                 (concat (map (\<lambda>plugin. fieldOrEmpty (ruleGroupSelectors plugin)) (fieldOrEmpty plugins)))
                 (concat (map (\<lambda>plugin. fieldOrEmpty (ruleSelectors plugin)) (fieldOrEmpty plugins)))
                 (case defaultOutput of Some f \<Rightarrow> f | None \<Rightarrow> toString)
                 (start + int index * step)) \<sigma> of
        (Inl e, \<sigma>') \<Rightarrow> (Inl e, \<sigma>')
      | (Inr results, \<sigma>') \<Rightarrow>
          (Inr ((case resultFormatter of Some f \<Rightarrow> f | None \<Rightarrow> join '' '') results), \<sigma>'))"
  unfolding fizzBuzz_def Let_def fieldOrEmpty_def[of plugins, symmetric]
  by (simp add: extractPlugins_concat)

lemma fizzBuzz_forgetUnused:
  "fizzBuzz arena start end_num step (map_option (map forgetUnusedFields) plugins)
     defaultOutput resultFormatter \<sigma>
   = fizzBuzz arena start end_num step plugins defaultOutput resultFormatter \<sigma>"
proof -
  have "fieldOrEmpty (map_option (map forgetUnusedFields) plugins)
        = map forgetUnusedFields (fieldOrEmpty plugins)"
    by (cases plugins) (simp_all add: fieldOrEmpty_def)
  then show ?thesis
    unfolding fizzBuzz_selectors
    by (simp only: groupSelectors_forget setSelectors_forget applyRules_forget)
qed

lemma priorityOr0_forgetRT [simp]: "priorityOr0 (forgetRuleTransformer rule) = priorityOr0 rule"
  by (simp add: priorityOr0_def forgetRuleTransformer_def)

lemma evaluateRule_forgetRT [simp]:
  "evaluateRule (forgetRuleTransformer rule) i context = evaluateRule rule i context"
  by (simp add: evaluateRule_def forgetRuleTransformer_def split: option.splits)

lemma applyRuleEvents_forgetRT [simp]:
  "applyRuleEvents (forgetRuleTransformer rule) i w = applyRuleEvents rule i w"
  by (simp add: applyRuleEvents_def forgetRuleTransformer_def)

lemma filter_fn_forgetRT [simp]: "filter_fn (forgetRuleTransformer rule) = filter_fn rule"
  by (simp add: forgetRuleTransformer_def)

lemma output_forgetRT [simp]: "output_str (forgetRuleTransformer rule) = output_str rule"
  by (simp add: forgetRuleTransformer_def)







subsection \<open>Decorators\<close>

text \<open>
  Called as it is declared, with an array of decorators, \<^verbatim>\<open>applyDecorators\<close> folds them from
  the left: the second decorator receives the rule that the first returned.
\<close>

lemma applyDecorators_array_fold:
  "applyDecorators rule (Arr [d1, d2]) context = Inr (d2 (d1 rule context) context)"
  by simp

text \<open>
  Line 145 does not call it that way. As soon as a group that contains the matched rule
  contributes a decorator, the evaluation of the rule ends in the \<^verbatim>\<open>TypeError\<close>.
\<close>

lemma applyMatchedRule_decorated:
  assumes "concat (map decoratorsOf
             (filter (\<lambda>grp. rule \<in> set (arrays \<sigma> (TaggedRuleGroup.rules grp))) matchingGroups)) \<noteq> []"
  shows "fst (applyMatchedRule arena matchingGroups rule i \<sigma>) = Inl TypeError"
  using assms by (simp add: applyMatchedRule_result Let_def)

subsection \<open>What a whole run writes\<close>

lemma sortedFrom_trans:
  assumes "sortedFrom arena arrs0 arrs1" and "sortedFrom arena arrs1 arrs2"
  shows "sortedFrom arena arrs0 arrs2"
  unfolding sortedFrom_def
proof
  fix a
  show "arrs2 a = arrs0 a \<or> arrs2 a = sort_key (\<lambda>rule. priorityOr0 (arena rule)) (arrs0 a)"
    using assms[unfolded sortedFrom_def, rule_format, of a] by (auto simp: sort_key_twice)
qed

lemma applyRules_sortedFrom:
  "sortedFrom arena (arrays \<sigma>)
     (arrays (snd (applyRules arena groupSelectors setSelectors defaultOutput i \<sigma>)))"
  unfolding sortedFrom_def
  using applyRules_arrays[of arena groupSelectors setSelectors defaultOutput i \<sigma>] by blast

lemma mapIndices_sortedFrom:
  assumes "\<And>index \<sigma>. sortedFrom arena (arrays \<sigma>) (arrays (snd (f index \<sigma>)))"
  shows "sortedFrom arena (arrays \<sigma>) (arrays (snd (mapIndices f indices \<sigma>)))"
proof (induction indices arbitrary: \<sigma>)
  case Nil
  then show ?case by (simp add: sortedFrom_refl)
next
  case (Cons index rest)
  obtain r \<sigma>1 where first: "f index \<sigma> = (r, \<sigma>1)"
    by (cases "f index \<sigma>")
  have step1: "sortedFrom arena (arrays \<sigma>) (arrays \<sigma>1)"
    using assms[of \<sigma> index] first by simp
  show ?case
  proof (cases r)
    case (Inl e)
    then show ?thesis using first step1 by simp
  next
    case (Inr label)
    obtain rs \<sigma>2 where more: "mapIndices f rest \<sigma>1 = (rs, \<sigma>2)"
      by (cases "mapIndices f rest \<sigma>1")
    have "sortedFrom arena (arrays \<sigma>1) (arrays \<sigma>2)"
      using Cons.IH[of \<sigma>1] more by simp
    then have "sortedFrom arena (arrays \<sigma>) (arrays \<sigma>2)"
      using step1 by (rule sortedFrom_trans[rotated])
    then show ?thesis
      using first Inr more by (cases rs) simp_all
  qed
qed

lemma fizzBuzz_sortedFrom:
  "sortedFrom arena (arrays \<sigma>)
     (arrays (snd (fizzBuzz arena start end_num step plugins defaultOutput resultFormatter \<sigma>)))"
proof -
  let ?f = "\<lambda>index. applyRules arena
                 (concat (map (\<lambda>plugin. fieldOrEmpty (ruleGroupSelectors plugin)) (fieldOrEmpty plugins)))
                 (concat (map (\<lambda>plugin. fieldOrEmpty (ruleSelectors plugin)) (fieldOrEmpty plugins)))
                 (case defaultOutput of Some f \<Rightarrow> f | None \<Rightarrow> toString)
                 (start + int index * step)"
  have run: "sortedFrom arena (arrays \<sigma>)
               (arrays (snd (arrayFrom (sequenceLength start end_num step) ?f \<sigma>)))"
  proof (cases "arrayLength (sequenceLength start end_num step)")
    case (Inl e)
    then show ?thesis by (simp add: arrayFrom_def sortedFrom_refl)
  next
    case (Inr n)
    have "sortedFrom arena (arrays \<sigma>) (arrays (snd (mapIndices ?f [0..<n] \<sigma>)))"
      by (rule mapIndices_sortedFrom) (rule applyRules_sortedFrom)
    then show ?thesis using Inr by (simp add: arrayFrom_def)
  qed
  have "snd (fizzBuzz arena start end_num step plugins defaultOutput resultFormatter \<sigma>)
        = snd (arrayFrom (sequenceLength start end_num step) ?f \<sigma>)"
    unfolding fizzBuzz_selectors by (simp split: prod.splits sum.splits)
  then show ?thesis using run by simp
qed

subsection \<open>Runs without selectors\<close>



subsection \<open>Unfolding the example objects\<close>

lemmas example_defs =
  alwaysRule_def exampleArena_def exampleArrays_def exampleState_def prioritySet_def fizzSet_def
  malformedSet_def prioritySelector_def fizzSelector_def malformedSelector_def groupA_def
  groupB_def groupD_def decoratedPlugin_def taggedPlugin_def taggedPlugin'_def exampleArena'_def

section \<open>The claims of the specification\<close>

subsection \<open>C1: order of evaluation and priorities\<close>



subsection \<open>C2: the label\<close>

text \<open>
  C2. Whenever the matched rule emits a label, the label is \<^verbatim>\<open>"[" + tag + ": " + body + "]"\<close>,
  where the tag is that of the first collected group whose array contains the rule, or
  \<^verbatim>\<open>"Default"\<close> when no collected group contains it, and the body is the left fold of the
  result transformers of the groups that contain the rule, in group order, over the
  output string of the rule, each transformer receiving the previous string and the number.
\<close>

theorem matched_rule_label:
  assumes "fst (applyMatchedRule arena matchingGroups rule i \<sigma>) = Inr label"
  shows "label =
     ''['' @ (case find (\<lambda>grp. rule \<in> set (arrays \<sigma> (TaggedRuleGroup.rules grp))) matchingGroups of
               Some grp \<Rightarrow> tag grp
             | None \<Rightarrow> ''Default'')
     @ '': ''
     @ foldl (\<lambda>text transformer. transformer text i None) (output_str (arena rule))
         (List.map_filter TaggedRuleGroup.resultTransformer
            (filter (\<lambda>grp. rule \<in> set (arrays \<sigma> (TaggedRuleGroup.rules grp))) matchingGroups))
     @ '']''"
  using assms unfolding applyMatchedRule_result Let_def by (simp split: if_splits)

text \<open>
  Groups \<open>A\<close> and \<open>B\<close> both contain rule \<open>1\<close>; their transformers append \<^verbatim>\<open>!\<close> and wrap in
  \<^verbatim>\<open><>\<close>. The tag is that of \<open>A\<close> and the body is the second transformer applied to the
  result of the first.
\<close>

theorem matched_rule_label_witness:
  "fst (applyMatchedRule exampleArena [groupA, groupB] 1 12 exampleState) = Inr ''[A: <One!>]''
   \<and> ''[A: <One!>]'' =
     ''['' @ (case find (\<lambda>grp. 1 \<in> set (arrays exampleState (TaggedRuleGroup.rules grp))) [groupA, groupB] of
               Some grp \<Rightarrow> tag grp
             | None \<Rightarrow> ''Default'')
     @ '': ''
     @ foldl (\<lambda>text transformer. transformer text 12 None) (output_str (exampleArena 1))
         (List.map_filter TaggedRuleGroup.resultTransformer
            (filter (\<lambda>grp. 1 \<in> set (arrays exampleState (TaggedRuleGroup.rules grp))) [groupA, groupB]))
     @ '']''"
proof -
  have emitted: "fst (applyMatchedRule exampleArena [groupA, groupB] 1 12 exampleState)
                 = Inr ''[A: <One!>]''"
    by (simp add: example_defs applyMatchedRule_def applyRuleEvents_def includesRule_def
          decoratorsOf_def getRuleTag_def applyResultTransformer_def transformersOf_def)
  show ?thesis
    using emitted matched_rule_label[OF emitted] by blast
qed

subsection \<open>C3: decorators\<close>

text \<open>
  C3. The specification says that the decorators of the groups that contain the matched
  rule are folded from the left over the rule and that the output of the resulting rule is
  used for the label. The program does not do that: in the example, group \<open>D\<close> contains the
  matching rule and carries two decorators, and the run ends in a \<^verbatim>\<open>TypeError\<close> instead of
  a label (see \<open>applyMatchedRule_decorated\<close> for the general statement and
  \<open>applyDecorators_array_fold\<close> for the fold that the helper performs when it is called with
  an array).
\<close>

theorem decorated_rule_throws:
  "fst (fizzBuzz exampleArena 12 12 1 (Some [decoratedPlugin]) None None exampleState)
   = Inl TypeError"
  by (simp add: fizzBuzz_def extractPlugins_def extractPlugin_def pushAll_def arrayFrom_def
        sequenceLength_def applyRules_def collectGroups_def collectRuleSets_def sortArray_sort_key
        removeDuplicates_remdups_adj priorityOr0_def evaluateRule_def applyMatchedRule_def
        applyRuleEvents_def includesRule_def decoratorsOf_def example_defs)

subsection \<open>C4: what an evaluation writes\<close>

text \<open>
  C4, as the specification states it, fails: evaluating a number can change the order of
  a rule set's rules array. In the example the array is \<open>[2, 1]\<close> before the evaluation of
  \<open>12\<close> and \<open>[1, 2]\<close> after it.
\<close>

theorem rules_array_reordered:
  "arrays exampleState (RuleSet.rules prioritySet) = [2, 1]
   \<and> arrays (snd (applyRules exampleArena [] [prioritySelector] toString 12 exampleState))
        (RuleSet.rules prioritySet) = [1, 2]"
  by (simp add: applyRules_def collectGroups_def collectRuleSets_def sortArray_sort_key
        removeDuplicates_remdups_adj priorityOr0_def evaluateRule_def applyMatchedRule_def
        applyRuleEvents_def getRuleTag_def applyResultTransformer_def example_defs)

text \<open>
  C4, amended. The evaluation of a number replaces by its stable sort by priority exactly
  the rules arrays of the collected rule sets that the loop reaches and whose condition
  holds for the number; the loop reaches the collected rule sets up to and including the
  first one whose rules yield a match, and all of them when there is none. Every other
  array is unchanged, also that of a rule set whose condition holds but which comes after
  the one that decided. So the elements of every array, with their multiplicities, are
  unchanged, and only their order can change. Of a whole run: at its end every array is as
  it was or is sorted by priority. (Rules, rule sets, groups and plugins are values of the
  model that no function of the pipeline returns changed.)
\<close>

theorem applyRules_store_effect:
  "arrays (snd (applyRules arena groupSelectors setSelectors defaultOutput i \<sigma>)) a
     = (if \<exists>ruleSet \<in> set (reachedSets (setWinner arena (arrays \<sigma>) i)
                 (concat (map (\<lambda>selector. fieldOrEmpty (selector i None)) setSelectors))).
             RuleSet.rules ruleSet = a \<and> RuleSet.condition ruleSet i None
        then sort_key (\<lambda>rule. priorityOr0 (arena rule)) (arrays \<sigma> a)
        else arrays \<sigma> a)
   \<and> mset (arrays (snd (applyRules arena groupSelectors setSelectors defaultOutput i \<sigma>)) a)
       = mset (arrays \<sigma> a)
   \<and> (arrays (snd (fizzBuzz arena start end_num step plugins defaultOutput' resultFormatter \<sigma>)) a
         = arrays \<sigma> a
       \<or> arrays (snd (fizzBuzz arena start end_num step plugins defaultOutput' resultFormatter \<sigma>)) a
         = sort_key (\<lambda>rule. priorityOr0 (arena rule)) (arrays \<sigma> a))"
proof -
  let ?after = "arrays (snd (applyRules arena groupSelectors setSelectors defaultOutput i \<sigma>)) a"
  have effect: "?after
     = (if \<exists>ruleSet \<in> set (reachedSets (setWinner arena (arrays \<sigma>) i)
                 (concat (map (\<lambda>selector. fieldOrEmpty (selector i None)) setSelectors))).
             RuleSet.rules ruleSet = a \<and> RuleSet.condition ruleSet i None
        then sort_key (\<lambda>rule. priorityOr0 (arena rule)) (arrays \<sigma> a)
        else arrays \<sigma> a)"
    using applyRules_reached[of arena groupSelectors setSelectors defaultOutput i \<sigma> a]
    unfolding collectRuleSets_concat .
  have "?after = arrays \<sigma> a \<or> ?after = sort_key (\<lambda>rule. priorityOr0 (arena rule)) (arrays \<sigma> a)"
    using applyRules_arrays[of arena groupSelectors setSelectors defaultOutput i \<sigma> a] by blast
  then have contents: "mset ?after = mset (arrays \<sigma> a)"
    by (elim disjE) simp_all
  have run: "arrays (snd (fizzBuzz arena start end_num step plugins defaultOutput' resultFormatter \<sigma>)) a
         = arrays \<sigma> a
       \<or> arrays (snd (fizzBuzz arena start end_num step plugins defaultOutput' resultFormatter \<sigma>)) a
         = sort_key (\<lambda>rule. priorityOr0 (arena rule)) (arrays \<sigma> a)"
    using fizzBuzz_sortedFrom[of arena \<sigma> start end_num step plugins defaultOutput' resultFormatter]
    unfolding sortedFrom_def by blast
  show ?thesis
    by (intro conjI effect contents run)
qed

text \<open>
  With the rule selector \<open>prioritySelector\<close> alone, the evaluation of \<open>12\<close> reaches \<open>prioritySet\<close>
  and sorts its array \<open>[2, 1]\<close> to \<open>[1, 2]\<close>. With \<open>fizzSelector\<close> before it, the rule of \<open>fizzSet\<close>
  matches \<open>12\<close>, the loop ends there, and the array of \<open>prioritySet\<close>, whose condition holds,
  stays \<open>[2, 1]\<close>.
\<close>

theorem applyRules_store_effect_witness:
  "reachedSets (setWinner exampleArena (arrays exampleState) 12)
       (concat (map (\<lambda>selector. fieldOrEmpty (selector 12 None)) [prioritySelector]))
     = [prioritySet]
   \<and> RuleSet.condition prioritySet 12 None
   \<and> arrays exampleState (RuleSet.rules prioritySet) = [2, 1]
   \<and> arrays (snd (applyRules exampleArena [] [prioritySelector] toString 12 exampleState))
        (RuleSet.rules prioritySet) = [1, 2]
   \<and> mset (arrays (snd (applyRules exampleArena [] [prioritySelector] toString 12 exampleState))
              (RuleSet.rules prioritySet))
       = mset (arrays exampleState (RuleSet.rules prioritySet))
   \<and> reachedSets (setWinner exampleArena (arrays exampleState) 12)
       (concat (map (\<lambda>selector. fieldOrEmpty (selector 12 None)) [fizzSelector, prioritySelector]))
     = [fizzSet]
   \<and> arrays (snd (applyRules exampleArena [] [fizzSelector, prioritySelector] toString 12
                     exampleState))
        (RuleSet.rules prioritySet) = [2, 1]"
proof -
  have reached1: "reachedSets (setWinner exampleArena (arrays exampleState) 12)
       (concat (map (\<lambda>selector. fieldOrEmpty (selector 12 None)) [prioritySelector]))
     = [prioritySet]"
    by (simp add: setWinner_def candidates_def ruleApplies_def evaluateRule_def priorityOr0_def
          fieldOrEmpty_def example_defs)
  have reached2: "reachedSets (setWinner exampleArena (arrays exampleState) 12)
       (concat (map (\<lambda>selector. fieldOrEmpty (selector 12 None)) [fizzSelector, prioritySelector]))
     = [fizzSet]"
    by (simp add: setWinner_def candidates_def ruleApplies_def evaluateRule_def priorityOr0_def
          fieldOrEmpty_def example_defs)
  have holds: "RuleSet.condition prioritySet 12 None"
    by (simp add: prioritySet_def)
  have before: "arrays exampleState (RuleSet.rules prioritySet) = [2, 1]"
    by (simp add: example_defs)
  have sorted: "sort_key (\<lambda>rule. priorityOr0 (exampleArena rule)) [2, 1] = [1, 2]"
    by (simp add: priorityOr0_def example_defs)
  have other: "RuleSet.rules fizzSet \<noteq> RuleSet.rules prioritySet"
    by (simp add: example_defs)
  have selected: "\<exists>ruleSet \<in> set [prioritySet].
      RuleSet.rules ruleSet = RuleSet.rules prioritySet \<and> RuleSet.condition ruleSet 12 None"
    using holds by simp
  have after1: "arrays (snd (applyRules exampleArena [] [prioritySelector] toString 12 exampleState))
        (RuleSet.rules prioritySet) = [1, 2]"
    using applyRules_store_effect[of exampleArena "[]" "[prioritySelector]" toString 12 exampleState
        "RuleSet.rules prioritySet", THEN conjunct1]
    unfolding reached1 before sorted by (simp only: selected if_True)
  have contents: "mset (arrays (snd (applyRules exampleArena [] [prioritySelector] toString 12 exampleState))
              (RuleSet.rules prioritySet))
       = mset (arrays exampleState (RuleSet.rules prioritySet))"
    by (rule applyRules_store_effect[of exampleArena "[]" "[prioritySelector]" toString 12
          exampleState "RuleSet.rules prioritySet", THEN conjunct2, THEN conjunct1])
  have after2: "arrays (snd (applyRules exampleArena [] [fizzSelector, prioritySelector] toString 12
                     exampleState))
        (RuleSet.rules prioritySet) = [2, 1]"
    using applyRules_store_effect[of exampleArena "[]" "[fizzSelector, prioritySelector]" toString 12
        exampleState "RuleSet.rules prioritySet", THEN conjunct1]
    unfolding reached2 by (simp add: other before)
  show ?thesis
    by (intro conjI reached1 holds before after1 contents reached2 after2)
qed

subsection \<open>C5: the numbers of a run\<close>




subsection \<open>C6: the default output\<close>

text \<open>
  C6. If, for every collected rule set whose condition holds for the number, no rule of the
  set passes its filter and matches (in particular if no condition holds), the evaluation
  of the number returns \<^verbatim>\<open>defaultOutput(num)\<close>.
\<close>

theorem applyRules_default_output:
  assumes "\<forall>ruleSet \<in> set (concat (map (\<lambda>selector. fieldOrEmpty (selector i None)) setSelectors)).
             RuleSet.condition ruleSet i None \<longrightarrow>
             (\<forall>rule \<in> set (arrays \<sigma> (RuleSet.rules ruleSet)). \<not> ruleApplies arena i rule)"
  shows "fst (applyRules arena groupSelectors setSelectors defaultOutput i \<sigma>) = Inr (defaultOutput i)"
proof -
  have "\<forall>ruleSet \<in> set (collectRuleSets setSelectors i). setWinner arena (arrays \<sigma>) i ruleSet = None"
    using assms unfolding collectRuleSets_concat by (intro ballI setWinner_None) blast
  then have "firstSome (setWinner arena (arrays \<sigma>) i) (collectRuleSets setSelectors i) = None"
    by (rule firstSome_None)
  then show ?thesis by (simp add: applyRules_winner)
qed

text \<open>
  For \<open>13\<close> the first selector returns nothing and the rule set of the second holds only a
  rule without predicates, so the result is the default label; for \<open>12\<close> the first selector
  returns the set of the always-matching rule \<open>Fizz\<close>.
\<close>

theorem applyRules_default_output_witness:
  "fst (applyRules exampleArena [] [fizzSelector, malformedSelector]
          (\<lambda>num. ''NotDivisible-'' @ toString num) 13 exampleState)
     = Inr ''NotDivisible-13''
   \<and> fst (applyRules exampleArena [] [fizzSelector, malformedSelector]
              (\<lambda>num. ''NotDivisible-'' @ toString num) 12 exampleState)
       = Inr ''[Default: Fizz]''"
proof -
  have no_match: "\<forall>ruleSet \<in> set (concat (map (\<lambda>selector. fieldOrEmpty (selector 13 None))
                                 [fizzSelector, malformedSelector])).
      RuleSet.condition ruleSet 13 None \<longrightarrow>
      (\<forall>rule \<in> set (arrays exampleState (RuleSet.rules ruleSet)). \<not> ruleApplies exampleArena 13 rule)"
    by (simp add: fieldOrEmpty_def ruleApplies_def evaluateRule_def example_defs)
  have thirteen: "''NotDivisible-'' @ toString 13 = ''NotDivisible-13''"
    by (simp add: toString_def digits.simps)
  have twelve: "fst (applyRules exampleArena [] [fizzSelector, malformedSelector]
              (\<lambda>num. ''NotDivisible-'' @ toString num) 12 exampleState)
       = Inr ''[Default: Fizz]''"
    by (simp add: applyRules_def collectGroups_def collectRuleSets_def sortArray_sort_key
        removeDuplicates_remdups_adj priorityOr0_def evaluateRule_def applyMatchedRule_def
        applyRuleEvents_def getRuleTag_def applyResultTransformer_def example_defs)
  have default13: "fst (applyRules exampleArena [] [fizzSelector, malformedSelector]
              (\<lambda>num. ''NotDivisible-'' @ toString num) 13 exampleState)
       = Inr ''NotDivisible-13''"
    using applyRules_default_output[OF no_match, of "[]" "\<lambda>num. ''NotDivisible-'' @ toString num"]
    by (simp only: thirteen)
  show ?thesis
    by (intro conjI default13 twelve)
qed

subsection \<open>C7: the match decision\<close>

text \<open>
  C7. \<^verbatim>\<open>evaluateRule\<close> returns what the evaluator of the rule returns when the rule has one,
  otherwise what the per-rule condition returns when the rule has one, and otherwise
  \<open>False\<close>: a rule with neither predicate never matches, and the loop over the rules passes
  over it without an error.
\<close>

theorem evaluateRule_decision:
  "(\<forall>ev. evaluator rule = Some ev \<longrightarrow> evaluateRule rule num context = ev num context)
   \<and> (\<forall>cond. evaluator rule = None \<and> FizzBuzzRule.condition rule = Some cond
         \<longrightarrow> evaluateRule rule num context = cond num context)
   \<and> (evaluator rule = None \<and> FizzBuzzRule.condition rule = None
         \<longrightarrow> evaluateRule rule num context = False)
   \<and> (\<forall>arena ref. arena ref = rule \<and> evaluator rule = None \<and> FizzBuzzRule.condition rule = None
         \<longrightarrow> scanRules arena matchingGroups num (ref # rest) \<sigma>
             = scanRules arena matchingGroups num rest \<sigma>)"
  by (auto simp: evaluateRule_def split: option.splits)

theorem evaluateRule_decision_witness:
  "evaluator (exampleArena 5) = Some (\<lambda>num context. num mod 2 = 0)
   \<and> evaluateRule (exampleArena 5) 7 None = (\<lambda>(num::int) (context::any option). num mod 2 = 0) 7 None
   \<and> \<not> evaluateRule (exampleArena 5) 7 None
   \<and> evaluator (exampleArena 4) = None
   \<and> FizzBuzzRule.condition (exampleArena 4) = Some (\<lambda>num context. num mod 5 = 0)
   \<and> evaluateRule (exampleArena 4) 10 None = (\<lambda>(num::int) (context::any option). num mod 5 = 0) 10 None
   \<and> evaluateRule (exampleArena 4) 10 None
   \<and> evaluator (exampleArena 0) = None \<and> FizzBuzzRule.condition (exampleArena 0) = None
   \<and> evaluateRule (exampleArena 0) 7 None = False
   \<and> scanRules exampleArena [] 7 [0, 1] exampleState = scanRules exampleArena [] 7 [1] exampleState"
proof -
  have e5: "evaluator (exampleArena 5) = Some (\<lambda>num context. num mod 2 = 0)"
    by (simp add: example_defs)
  have e4: "evaluator (exampleArena 4) = None
            \<and> FizzBuzzRule.condition (exampleArena 4) = Some (\<lambda>num context. num mod 5 = 0)"
    by (simp add: example_defs)
  have e0: "evaluator (exampleArena 0) = None \<and> FizzBuzzRule.condition (exampleArena 0) = None"
    by (simp add: example_defs)
  have r5: "evaluateRule (exampleArena 5) 7 None = (\<lambda>(num::int) (context::any option). num mod 2 = 0) 7 None"
    by (rule evaluateRule_decision[THEN conjunct1, rule_format, OF e5])
  have r4: "evaluateRule (exampleArena 4) 10 None = (\<lambda>(num::int) (context::any option). num mod 5 = 0) 10 None"
    by (rule evaluateRule_decision[THEN conjunct2, THEN conjunct1, rule_format, OF e4])
  have r0: "evaluateRule (exampleArena 0) 7 None = False"
    by (rule evaluateRule_decision[THEN conjunct2, THEN conjunct2, THEN conjunct1, rule_format,
          OF e0])
  have skip: "scanRules exampleArena [] 7 [0, 1] exampleState
              = scanRules exampleArena [] 7 [1] exampleState"
    by (rule evaluateRule_decision[of "exampleArena 0" 7 None "[]" "[1]" exampleState,
          THEN conjunct2, THEN conjunct2, THEN conjunct2, rule_format, of exampleArena 0])
       (simp add: e0)
  have odd: "\<not> evaluateRule (exampleArena 5) 7 None"
    unfolding r5 by simp
  have ten: "evaluateRule (exampleArena 4) 10 None"
    unfolding r4 by simp
  show ?thesis
    by (intro conjI e5 r5 odd e4[THEN conjunct1] e4[THEN conjunct2] r4 ten
          e0[THEN conjunct1] e0[THEN conjunct2] r0 skip)
qed

subsection \<open>C8: the aggregation of the plugins\<close>

text \<open>
  C8. For every list of plugins, each of the four extracted sequences (group selectors, rule
  selectors, group modifiers, result formatters) is the concatenation, in plugin order and
  then in array order, of the corresponding field of the plugins, an absent field
  contributing nothing. Nothing is removed, and the extraction is a function of the plugin
  list alone.
\<close>

theorem extractPlugins_flatten:
  "extractPlugins plugins =
     (concat (map (\<lambda>plugin. fieldOrEmpty (ruleGroupSelectors plugin)) plugins),
      concat (map (\<lambda>plugin. fieldOrEmpty (ruleSelectors plugin)) plugins),
      concat (map (\<lambda>plugin. fieldOrEmpty (ruleGroupModifiers plugin)) plugins),
      concat (map (\<lambda>plugin. fieldOrEmpty (resultFormatters plugin)) plugins))"
  by (rule extractPlugins_concat)

subsection \<open>C9: \<^verbatim>\<open>selectBehavior\<close> and \<^verbatim>\<open>ruleGroupModifiers\<close> are not read\<close>

text \<open>
  C9. Two plugin lists that differ only in the \<^verbatim>\<open>ruleGroupModifiers\<close> of the plugins and in the
  \<^verbatim>\<open>selectBehavior\<close> of the groups that their group selectors return give the same run: the
  same result (string or exception) and the same final state.
\<close>

theorem fizzBuzz_ignores_unused_fields:
  assumes "map_option (map forgetUnusedFields) plugins = map_option (map forgetUnusedFields) plugins'"
  shows "fizzBuzz arena start end_num step plugins defaultOutput resultFormatter \<sigma>
       = fizzBuzz arena start end_num step plugins' defaultOutput resultFormatter \<sigma>"
proof -
  have "fizzBuzz arena start end_num step plugins defaultOutput resultFormatter \<sigma>
        = fizzBuzz arena start end_num step (map_option (map forgetUnusedFields) plugins)
            defaultOutput resultFormatter \<sigma>"
    by (rule fizzBuzz_forgetUnused[symmetric])
  also have "\<dots> = fizzBuzz arena start end_num step (map_option (map forgetUnusedFields) plugins')
            defaultOutput resultFormatter \<sigma>"
    by (simp only: assms)
  also have "\<dots> = fizzBuzz arena start end_num step plugins' defaultOutput resultFormatter \<sigma>"
    by (rule fizzBuzz_forgetUnused)
  finally show ?thesis .
qed

theorem fizzBuzz_ignores_unused_fields_witness:
  "map_option (map forgetUnusedFields) (Some [taggedPlugin])
     = map_option (map forgetUnusedFields) (Some [taggedPlugin'])
   \<and> ruleGroupModifiers taggedPlugin \<noteq> ruleGroupModifiers taggedPlugin'
   \<and> fizzBuzz exampleArena 10 20 1 (Some [taggedPlugin]) None None exampleState
       = fizzBuzz exampleArena 10 20 1 (Some [taggedPlugin']) None None exampleState"
proof -
  have same: "map_option (map forgetUnusedFields) (Some [taggedPlugin])
     = map_option (map forgetUnusedFields) (Some [taggedPlugin'])"
    by (simp add: forgetUnusedFields_def forgetInSelector_def forgetSelectBehavior_def
          taggedPlugin_def taggedPlugin'_def groupA_def)
  have differ: "ruleGroupModifiers taggedPlugin \<noteq> ruleGroupModifiers taggedPlugin'"
    by (simp add: taggedPlugin_def taggedPlugin'_def)
  show ?thesis
    by (intro conjI same differ fizzBuzz_ignores_unused_fields[OF same])
qed

subsection \<open>C10: the \<^verbatim>\<open>resultTransformer\<close> of a rule is not read\<close>



end
